theory Spec2Isabelle
  imports Main "HOL-Library.Sublist"
begin

section \<open>String and array primitives of the host language\<close>

text \<open>
  Strings are lists of characters. The line feed character is written \<open>nl\<close>.
\<close>

abbreviation nl :: string where
  "nl \<equiv> [CHR 0x0A]"

text \<open>\<^verbatim>\<open>s.includes(t)\<close>: \<open>t\<close> occurs in \<open>s\<close> as a contiguous run of characters.\<close>

fun str_includes :: "string \<Rightarrow> string \<Rightarrow> bool" where
  "str_includes [] t = (t = [])"
| "str_includes (c # cs) t = (prefix t (c # cs) \<or> str_includes cs t)"

text \<open>\<^verbatim>\<open>xs.join(sep)\<close> on an array of strings.\<close>

fun join :: "string \<Rightarrow> string list \<Rightarrow> string" where
  "join sep [] = []"
| "join sep [x] = x"
| "join sep (x # y # ys) = x @ sep @ join sep (y # ys)"

text \<open>
  \<^verbatim>\<open>s.split(c)\<close> for a one-character separator: the result always has at least one
  fragment, and a string ending in the separator yields a last fragment that is empty.
\<close>

fun str_split :: "char \<Rightarrow> string \<Rightarrow> string list" where
  "str_split c [] = [[]]"
| "str_split c (x # xs) =
     (if x = c then [] # str_split c xs
      else (case str_split c xs of
              [] \<Rightarrow> [[x]]
            | l # ls \<Rightarrow> (x # l) # ls))"

text \<open>\<^verbatim>\<open>xs.slice(0, -1)\<close>: every element but the last; the empty array stays empty.\<close>

definition slice_0_m1 :: "'a list \<Rightarrow> 'a list" where
  "slice_0_m1 xs = butlast xs"

text \<open>
  Interpolation of an integral number into a template literal: decimal digits, with a
  leading minus sign for a negative number.
\<close>

fun string_of_nat :: "nat \<Rightarrow> string" where
  "string_of_nat n =
     (if n < 10 then [''0123456789'' ! n]
      else string_of_nat (n div 10) @ [''0123456789'' ! (n mod 10)])"

declare string_of_nat.simps [simp del]

definition string_of_number :: "int \<Rightarrow> string" where
  "string_of_number i =
     (if i < 0 then ''-'' @ string_of_nat (nat (- i)) else string_of_nat (nat i))"

text \<open>
  Truthiness of a value of type \<^verbatim>\<open>number | null\<close>: \<^verbatim>\<open>null\<close> and \<^verbatim>\<open>0\<close> are falsy.
\<close>

definition truthy :: "int option \<Rightarrow> bool" where
  "truthy v = (case v of None \<Rightarrow> False | Some n \<Rightarrow> n \<noteq> 0)"

text \<open>
  \<^verbatim>\<open>xs.forEach(x => { ... rows.push(...) ... })\<close>: the callback is run on the elements in
  order, and what it pushes is appended to the array built so far.
\<close>

fun forEach_push :: "('a \<Rightarrow> 'b list) \<Rightarrow> 'a list \<Rightarrow> 'b list \<Rightarrow> 'b list" where
  "forEach_push f [] rows = rows"
| "forEach_push f (x # xs) rows = forEach_push f xs (rows @ f x)"


section \<open>Data model\<close>

text \<open>
  Modelled from the spec: the type \<^verbatim>\<open>SnapshotDifference\<close> of \<^verbatim>\<open>./snapshots\<close>, which is not
  among the sources. Its fields are those of the specification's data model, under the
  names \<^verbatim>\<open>comments.ts\<close> reads them by. Byte counts and dependency counts are integers; a
  value of type \<^verbatim>\<open>number | null\<close> is an \<open>int option\<close>, with \<open>None\<close> for \<^verbatim>\<open>null\<close>.
\<close>

record CrateDifference =
  name :: string
  old :: "int option"
  new :: "int option"

text \<open>
  One segment of a line diff. The flags \<^verbatim>\<open>added\<close> and \<^verbatim>\<open>removed\<close> are read for their
  truthiness only; \<open>change_value\<close> is the field \<^verbatim>\<open>value\<close>.
\<close>

record Change =
  change_value :: string
  added :: bool
  removed :: bool

text \<open>\<^verbatim>\<open>treeDiff\<close> is a string or an array of changes, told apart by \<^verbatim>\<open>typeof\<close>.\<close>

datatype TreeDiff = TreeString string | TreeChanges "Change list"

record SnapshotDifference =
  packageName :: string
  currentSize :: int
  oldSize :: "int option"
  sizeDifference :: int
  currentTextSize :: int
  oldTextSize :: "int option"
  textDifference :: int
  crateDifference :: "CrateDifference list"
  treeDiff :: TreeDiff
  oldDependenciesCount :: int
  newDependenciesCount :: int

text \<open>
  What \<^verbatim>\<open>comments.ts\<close> imports and calls without defining it: the size humanizer
  \<^verbatim>\<open>fileSize\<close> (package \<^verbatim>\<open>filesize\<close>), the table formatter \<^verbatim>\<open>table\<close> (package
  \<^verbatim>\<open>text-table\<close>) and the comparison decision \<^verbatim>\<open>shouldIncludeInDiff\<close> (\<^verbatim>\<open>./utils\<close>).
  They are parameters of the model. \<open>fileSize\<close> receives exactly the argument the source
  passes, which is \<^verbatim>\<open>null\<close> when \<^verbatim>\<open>oldSize\<close> is.
\<close>

record Imports =
  fileSize :: "int option \<Rightarrow> string"
  table :: "string list list \<Rightarrow> string"
  shouldIncludeInDiff :: "int \<Rightarrow> int option \<Rightarrow> bool"

text \<open>The part of the workflow context the source reads.\<close>

record Context =
  issue_number :: nat
  owner :: string
  repo :: string


section \<open>createSnapshotComment\<close>

subsection \<open>Crate table rows\<close>

text \<open>The body of the callback over \<^verbatim>\<open>crateDifference\<close>: the rows it pushes for one entry.\<close>

definition crateRows :: "Imports \<Rightarrow> CrateDifference \<Rightarrow> (string \<times> string) list" where
  "crateRows ext d =
     (if old d = None \<and> new d = None then []
      else if old d = new d then [(name d, fileSize ext (new d))]
      else (if truthy (old d) then [(''- '' @ name d, fileSize ext (old d))] else [])
         @ (if truthy (new d) then [(''+ '' @ name d, fileSize ext (new d))] else []))"

definition crateTableRows :: "Imports \<Rightarrow> SnapshotDifference \<Rightarrow> (string \<times> string) list" where
  "crateTableRows ext diff = forEach_push (crateRows ext) (crateDifference diff) []"

subsection \<open>Size table rows\<close>

text \<open>The rows pushed by the first conditional, for the total size.\<close>

definition totalSizeRows ::
  "Imports \<Rightarrow> SnapshotDifference \<Rightarrow> (string \<times> string \<times> string) list" where
  "totalSizeRows ext diff =
     (if shouldIncludeInDiff ext (currentSize diff) (oldSize diff)
      then [(''- Size'', fileSize ext (oldSize diff), ''''),
            (''+ Size'', fileSize ext (Some (currentSize diff)),
             (if sizeDifference diff > 0 then ''+'' else '''')
               @ fileSize ext (Some (sizeDifference diff)))]
      else [(''Size'', fileSize ext (Some (currentTextSize diff)), '''')])"

text \<open>The rows pushed by the second conditional, for the text section.\<close>

definition textSizeRows ::
  "Imports \<Rightarrow> SnapshotDifference \<Rightarrow> (string \<times> string \<times> string) list" where
  "textSizeRows ext diff =
     (if shouldIncludeInDiff ext (currentTextSize diff) (oldTextSize diff)
      then [(''- Text Size'', fileSize ext (oldTextSize diff), ''''),
            (''+ Text Size'', fileSize ext (Some (currentTextSize diff)),
             (if textDifference diff > 0 then ''+'' else '''')
               @ fileSize ext (Some (textDifference diff)))]
      else [(''Text size'', fileSize ext (Some (currentTextSize diff)), '''')])"

definition sizeTableRows ::
  "Imports \<Rightarrow> SnapshotDifference \<Rightarrow> (string \<times> string \<times> string) list" where
  "sizeTableRows ext diff = totalSizeRows ext diff @ textSizeRows ext diff"

subsection \<open>Dependency tree\<close>

definition changePrefix :: "Change \<Rightarrow> string" where
  "changePrefix change = (if added change then ''+'' else if removed change then ''-'' else '' '')"

text \<open>The string pushed onto \<^verbatim>\<open>treeDiffLines\<close> for one change.\<close>

definition changeBlock :: "Change \<Rightarrow> string" where
  "changeBlock change =
     (let splitLines = str_split (CHR 0x0A) (change_value change)
      in join nl (map (\<lambda>line. changePrefix change @ '' '' @ line) (slice_0_m1 splitLines)) @ nl)"

definition renderTreeDiff :: "TreeDiff \<Rightarrow> string" where
  "renderTreeDiff t =
     (case t of
        TreeString s \<Rightarrow> s
      | TreeChanges changes \<Rightarrow>
          join [] (forEach_push (\<lambda>change. [changeBlock change]) changes []) @ nl)"

definition dependencyCountDiff :: "SnapshotDifference \<Rightarrow> string" where
  "dependencyCountDiff diff =
     (if oldDependenciesCount diff = newDependenciesCount diff
      then ''Count: '' @ string_of_number (oldDependenciesCount diff)
      else ''- Count: '' @ string_of_number (oldDependenciesCount diff) @ nl
         @ ''+ Count: '' @ string_of_number (newDependenciesCount diff))"

subsection \<open>Assembly\<close>

definition crateDetailsText :: "Imports \<Rightarrow> SnapshotDifference \<Rightarrow> string" where
  "crateDetailsText ext diff =
     (if length (crateTableRows ext diff) = 0 then ''No changes to crate sizes''
      else nl @ ''<details>'' @ nl
         @ ''<summary>Size difference per crate</summary>'' @ nl
         @ ''<br />'' @ nl
         @ nl
         @ ''**Note:** The numbers below are not 100% accurate, use them as a rough estimate.'' @ nl
         @ nl
         @ ''```diff'' @ nl
         @ ''@@ Breakdown per crate @@'' @ nl
         @ nl
         @ table ext (map (\<lambda>(a, b). [a, b]) (crateTableRows ext diff)) @ nl
         @ ''```'' @ nl
         @ nl
         @ ''</details>'' @ nl)"

definition treeDiffText :: "SnapshotDifference \<Rightarrow> string" where
  "treeDiffText diff =
     nl @ ''<details>'' @ nl
     @ ''<summary>Dependency tree</summary>'' @ nl
     @ ''<br />'' @ nl
     @ nl
     @ ''```diff'' @ nl
     @ ''@@ Dependency tree @@'' @ nl
     @ dependencyCountDiff diff @ nl
     @ nl
     @ renderTreeDiff (treeDiff diff) @ nl
     @ ''```'' @ nl
     @ nl
     @ ''</details>'' @ nl"

definition createSnapshotComment :: "Imports \<Rightarrow> SnapshotDifference \<Rightarrow> string" where
  "createSnapshotComment ext diff =
     nl @ ''```diff'' @ nl
     @ ''@@ Size breakdown @@'' @ nl
     @ nl
     @ table ext (map (\<lambda>(a, b, c). [a, b, c]) (sizeTableRows ext diff)) @ nl
     @ nl
     @ ''```'' @ nl
     @ nl
     @ crateDetailsText ext diff @ nl
     @ nl
     @ treeDiffText diff @ nl"


section \<open>createComment\<close>

text \<open>
  The object literal \<^verbatim>\<open>emojiList\<close>; \<^verbatim>\<open>Object.entries\<close> lists its string keys in the
  order they are written.
\<close>

definition emojiList :: "(string \<times> string) list" where
  "emojiList =
     [(''apple'', ''apple''),
      (''windows'', ''office''),
      (''arm'', ''muscle''),
      (''linux'', ''cowboy_hat_face'')]"

text \<open>
  The \<^verbatim>\<open>for\<close> loop over the entries: the first key the toolchain includes sets the
  variable and leaves the loop; otherwise the variable keeps its value.
\<close>

fun selectEmoji_loop :: "(string \<times> string) list \<Rightarrow> string \<Rightarrow> string \<Rightarrow> string" where
  "selectEmoji_loop [] toolchain selectedEmoji = selectedEmoji"
| "selectEmoji_loop ((key, emoji) # entries) toolchain selectedEmoji =
     (if str_includes toolchain key then emoji
      else selectEmoji_loop entries toolchain selectedEmoji)"

definition selectedEmoji :: "string \<Rightarrow> string" where
  "selectedEmoji toolchain = selectEmoji_loop emojiList toolchain ''crab''"

definition compareCommitText :: "Context \<Rightarrow> string option \<Rightarrow> string \<Rightarrow> string" where
  "compareCommitText ctx masterCommit currentCommit =
     (case masterCommit of
        None \<Rightarrow> []
      | Some m \<Rightarrow>
          ''([Compare with baseline commit](https://gitea.izzys.place/'' @ owner ctx @ ''/''
          @ repo ctx @ ''/compare/'' @ m @ ''..'' @ currentCommit @ ''))'')"

text \<open>The text the \<^verbatim>\<open>map\<close> callback returns for one snapshot.\<close>

definition snapshotSection :: "Imports \<Rightarrow> SnapshotDifference \<Rightarrow> string" where
  "snapshotSection ext snapshot =
     (let comment = createSnapshotComment ext snapshot
      in ''<details>'' @ nl
       @ ''<summary><strong>'' @ packageName snapshot @ ''</strong>''
       @ (if shouldIncludeInDiff ext (currentSize snapshot) (oldSize snapshot)
          then '' (Changes :warning:)'' else [])
       @ ''</summary>'' @ nl
       @ ''<br />'' @ nl
       @ comment @ nl
       @ ''</details>'')"

definition innerComment :: "Imports \<Rightarrow> SnapshotDifference list \<Rightarrow> string" where
  "innerComment ext snapshots =
     (if length snapshots = 1 then createSnapshotComment ext (snapshots ! 0)
      else join nl (map (snapshotSection ext) snapshots))"

definition createComment ::
  "Imports \<Rightarrow> Context \<Rightarrow> string option \<Rightarrow> string \<Rightarrow> string \<Rightarrow> SnapshotDifference list \<Rightarrow> string"
where
  "createComment ext ctx masterCommit currentCommit toolchain snapshots =
     nl @ ''  :'' @ selectedEmoji toolchain @ '': Cargo bloat for toolchain **'' @ toolchain
     @ ''** :'' @ selectedEmoji toolchain @ '':'' @ nl
     @ nl
     @ ''  '' @ innerComment ext snapshots @ nl
     @ nl
     @ ''  Commit: '' @ currentCommit @ '' '' @ compareCommitText ctx masterCommit currentCommit @ nl
     @ ''  ''"


section \<open>createOrUpdateComment\<close>

text \<open>
  A listed comment, with the fields the source reads: \<^verbatim>\<open>id\<close>, \<^verbatim>\<open>user.login\<close> and
  \<^verbatim>\<open>body\<close>. The response of \<^verbatim>\<open>issues.listComments\<close> carries a status and the
  comments of the page that was asked for.
\<close>

record Comment =
  comment_id :: nat
  user_login :: string
  body :: string

record Listing =
  status :: nat
  data :: "Comment list"

text \<open>
  The effects of a run: the messages given to \<^verbatim>\<open>core.info\<close> and \<^verbatim>\<open>core.setFailed\<close>, and
  the requests sent to the issue tracker after the listing. A request carries the body,
  the issue number (or the comment id), the owner and the repository.
\<close>

datatype Log = Info string | SetFailed string

datatype Request =
  IssuesCreateComment string nat string string
| IssuesUpdateComment string nat string string

definition postNewComment :: "Context \<Rightarrow> string \<Rightarrow> Request list" where
  "postNewComment ctx message = [IssuesCreateComment message (issue_number ctx) (owner ctx) (repo ctx)]"

definition updateComment :: "Context \<Rightarrow> string \<Rightarrow> nat \<Rightarrow> Request list" where
  "updateComment ctx message cid = [IssuesUpdateComment message cid (owner ctx) (repo ctx)]"

definition ourComments :: "string \<Rightarrow> Comment list \<Rightarrow> Comment list" where
  "ourComments toolchain cs =
     filter (\<lambda>v. user_login v = ''github-actions[bot]'' \<and> str_includes (body v) toolchain) cs"

definition createOrUpdateComment ::
  "Context \<Rightarrow> string \<Rightarrow> string \<Rightarrow> Listing \<Rightarrow> Log list \<times> Request list" where
  "createOrUpdateComment ctx toolchain message comments =
     (let log0 = [Info (''Find comments for issue: '' @ string_of_nat (issue_number ctx))]
      in if status comments \<noteq> 200
         then (log0 @ [SetFailed (''Error fetching comments for MR ''
                                   @ string_of_nat (issue_number ctx))], [])
         else
           let log1 = log0 @ [Info (''Found '' @ string_of_nat (length (data comments))
                                    @ '' comments. Searching for comments containing ''
                                    @ toolchain)];
               ours = ourComments toolchain (data comments)
           in if length ours = 0
              then (log1 @ [Info ''No existing comment found, creating a new comment''],
                    postNewComment ctx message)
              else
                let cid = comment_id (ours ! 0)
                in (log1 @ [Info (''Updating comment with ID '' @ string_of_nat cid)],
                    updateComment ctx message cid))"

text \<open>
  The issue tracker's side of a request, on the comments of the issue: an update replaces
  the body of the comment that has the given id; a creation appends the comment the
  tracker makes of the body (its id and author are the tracker's choice, given here by
  the function \<open>mk\<close>).
\<close>

fun perform :: "(string \<Rightarrow> Comment) \<Rightarrow> Request \<Rightarrow> Comment list \<Rightarrow> Comment list" where
  "perform mk (IssuesCreateComment b n ow rp) store = store @ [mk b]"
| "perform mk (IssuesUpdateComment b cid ow rp) store =
     map (\<lambda>c. if comment_id c = cid then c\<lparr>body := b\<rparr> else c) store"

definition performAll :: "(string \<Rightarrow> Comment) \<Rightarrow> Request list \<Rightarrow> Comment list \<Rightarrow> Comment list" where
  "performAll mk reqs store = foldl (\<lambda>s r. perform mk r s) store reqs"


section \<open>Notions of the specification and sample inputs\<close>

text \<open>
  A comment matches a toolchain label when the bot identity wrote it and the label occurs
  in its body as a literal substring. This is the specification's wording, with the
  library's \<open>sublist\<close> for the substring; \<open>ourComments\<close> above is the source's filter.
\<close>

definition matchesToolchain :: "string \<Rightarrow> Comment \<Rightarrow> bool" where
  "matchesToolchain toolchain c =
     (user_login c = ''github-actions[bot]'' \<and> sublist toolchain (body c))"

text \<open>
  Modelled from the spec: \<^verbatim>\<open>shouldIncludeInDiff\<close> of \<^verbatim>\<open>./utils\<close>, which is not among the
  sources. The specification's rule: old and new are compared only when the old value is
  present, an absent old value is never a meaningful difference, and a present old value
  that differs numerically from the new one is. The theorems below take the decision as a
  parameter; this definition instantiates it in the examples.
\<close>

definition shouldIncludeInDiff_spec :: "int \<Rightarrow> int option \<Rightarrow> bool" where
  "shouldIncludeInDiff_spec newValue oldValue =
     (case oldValue of None \<Rightarrow> False | Some v \<Rightarrow> v \<noteq> newValue)"

text \<open>
  Sample instances of the two library functions, for the examples only: a humanizer that
  prints the byte count with the unit \<open>B\<close> (what the specification's examples show for
  counts below the first unit step, and \<open>0 B\<close> for \<^verbatim>\<open>null\<close>), and a table formatter that
  separates cells by two spaces and rows by line feeds, without padding.
\<close>

definition fileSize_bytes :: "int option \<Rightarrow> string" where
  "fileSize_bytes v = (case v of None \<Rightarrow> ''0 B'' | Some n \<Rightarrow> string_of_number n @ '' B'')"

definition table_plain :: "string list list \<Rightarrow> string" where
  "table_plain rows = join nl (map (join ''  '') rows)"

definition sampleImports :: Imports where
  "sampleImports =
     \<lparr>fileSize = fileSize_bytes, table = table_plain,
      shouldIncludeInDiff = shouldIncludeInDiff_spec\<rparr>"

text \<open>A first-run snapshot (no old sizes) with the crate entries of the specification's example.\<close>

definition snapshotFirst :: SnapshotDifference where
  "snapshotFirst =
     \<lparr>packageName = ''app'', currentSize = 900, oldSize = None, sizeDifference = 0,
      currentTextSize = 300, oldTextSize = None, textDifference = 0,
      crateDifference =
        [\<lparr>name = ''a'', old = Some 1000, new = Some 1000\<rparr>,
         \<lparr>name = ''b'', old = Some 500, new = None\<rparr>,
         \<lparr>name = ''c'', old = None, new = Some 800\<rparr>],
      treeDiff = TreeString ''app v0.1.0'',
      oldDependenciesCount = 10, newDependenciesCount = 10\<rparr>"

text \<open>A snapshot whose total size grew and whose text size shrank.\<close>

definition snapshotChanged :: SnapshotDifference where
  "snapshotChanged =
     \<lparr>packageName = ''tool'', currentSize = 900, oldSize = Some 800, sizeDifference = 100,
      currentTextSize = 300, oldTextSize = Some 400, textDifference = - 100,
      crateDifference = [\<lparr>name = ''z'', old = Some 0, new = Some 5\<rparr>],
      treeDiff = TreeChanges
        [\<lparr>change_value = ''tool v0.1.0'' @ nl, added = False, removed = False\<rparr>,
         \<lparr>change_value = ''dep v1.0.0'' @ nl @ ''sub v0.3.0'' @ nl,
          added = True, removed = False\<rparr>],
      oldDependenciesCount = 10, newDependenciesCount = 12\<rparr>"

definition sampleContext :: Context where
  "sampleContext = \<lparr>issue_number = 42, owner = ''izzyhub'', repo = ''cargo-bloat-action''\<rparr>"

text \<open>
  A successful listing: a comment by a person that mentions the toolchain, the bot's
  comment for it, the bot's comment for another toolchain, and a later duplicate.
\<close>

definition sampleListing :: Listing where
  "sampleListing =
     \<lparr>status = 200,
      data =
        [\<lparr>comment_id = 11, user_login = ''alice'',
          body = ''x86_64-unknown-linux-gnu looks fine''\<rparr>,
         \<lparr>comment_id = 12, user_login = ''github-actions[bot]'',
          body = ''Cargo bloat for toolchain **x86_64-unknown-linux-gnu**''\<rparr>,
         \<lparr>comment_id = 13, user_login = ''github-actions[bot]'',
          body = ''Cargo bloat for toolchain **x86_64-apple-darwin**''\<rparr>,
         \<lparr>comment_id = 14, user_login = ''github-actions[bot]'',
          body = ''Cargo bloat for toolchain **x86_64-unknown-linux-gnu** (old)''\<rparr>]\<rparr>"

definition failedListing :: Listing where
  "failedListing = \<lparr>status = 500, data = []\<rparr>"


section \<open>Facts about the primitives\<close>

lemmas eval_number = string_of_number_def string_of_nat.simps

lemma forEach_push_concat: "forEach_push f xs rows = rows @ concat (map f xs)"
  by (induction xs arbitrary: rows) simp_all

lemma str_includes_iff_sublist: "str_includes s t \<longleftrightarrow> sublist t s"
  by (induction s) (simp_all add: sublist_Cons_right)

lemma str_split_line: "c \<notin> set l \<Longrightarrow> str_split c (l @ c # rest) = l # str_split c rest"
  by (induction l) (auto split: list.splits)

lemma str_split_lines:
  "\<forall>l\<in>set ls. c \<notin> set l \<Longrightarrow> str_split c (concat (map (\<lambda>l. l @ [c]) ls)) = ls @ [[]]"
  by (induction ls) (simp_all add: str_split_line)

lemma join_Cons: "join sep (x # xs) = x @ concat (map (\<lambda>y. sep @ y) xs)"
  by (induction xs arbitrary: x) simp_all

lemma join_empty_sep: "join [] xs = concat xs"
  by (cases xs) (simp_all add: join_Cons)

lemma concat_map_singleton: "concat (map (\<lambda>x. [f x]) xs) = map f xs"
  by (induction xs) simp_all

lemma append_two_chars: "(@) [x, y] = (\<lambda>l. x # y # l)"
  by (rule ext) simp

lemma digit_mem: "k < 10 \<Longrightarrow> ''0123456789'' ! k \<in> set ''0123456789''"
  by (rule nth_mem) simp

lemma string_of_nat_digits: "set (string_of_nat n) \<subseteq> set ''0123456789''"
proof (induction n rule: string_of_nat.induct)
  case (1 n)
  define S where "S = set ''0123456789''"
  define D where "D = (\<lambda>k. ''0123456789'' ! k)"
  have d: "\<And>k. k < 10 \<Longrightarrow> D k \<in> S"
    unfolding S_def D_def by (rule digit_mem)
  have eq: "string_of_nat n = (if n < 10 then [D n] else string_of_nat (n div 10) @ [D (n mod 10)])"
    unfolding D_def by (rule string_of_nat.simps)
  have ih: "\<not> n < 10 \<Longrightarrow> set (string_of_nat (n div 10)) \<subseteq> S"
    unfolding S_def by (rule 1)
  have m: "n mod 10 < 10" by simp
  have "set (string_of_nat n) \<subseteq> S"
    using d[of n] d[OF m] ih by (auto simp: eq)
  then show ?case unfolding S_def .
qed

lemma string_of_number_chars: "set (string_of_number i) \<subseteq> set ''-0123456789''"
proof -
  have "set ''0123456789'' \<subseteq> set ''-0123456789''"
    by (simp only: set_simps) (rule subset_insertI)
  with string_of_nat_digits[of "nat i"] string_of_nat_digits[of "nat (- i)"]
  have a: "set (string_of_nat (nat i)) \<subseteq> set ''-0123456789''"
    and b: "set (string_of_nat (nat (- i))) \<subseteq> set ''-0123456789''"
    by blast+
  have c: "CHR ''-'' \<in> set ''-0123456789''"
    by (simp only: set_simps) (rule insertI1)
  show ?thesis
    unfolding string_of_number_def using a b c by (cases "i < 0") simp_all
qed

lemma nl_not_in_number: "CHR 0x0A \<notin> set (string_of_number i)"
proof
  assume "CHR 0x0A \<in> set (string_of_number i)"
  with string_of_number_chars[of i] have "CHR 0x0A \<in> set ''-0123456789''" by blast
  then show False by simp
qed

lemma fileSize_bytes_no_plus: "\<not> prefix ''+'' (fileSize_bytes x)"
proof
  assume p: "prefix ''+'' (fileSize_bytes x)"
  then obtain r where r: "fileSize_bytes x = ''+'' @ r" by (auto simp: prefix_def)
  show False
  proof (cases x)
    case None
    with r show False by (simp add: fileSize_bytes_def)
  next
    case (Some n)
    with r have "CHR ''+'' \<in> set (string_of_number n @ '' B'')"
      by (simp add: fileSize_bytes_def)
    then have "CHR ''+'' \<in> set (string_of_number n)" by simp
    with string_of_number_chars[of n] have "CHR ''+'' \<in> set ''-0123456789''" by blast
    then show False by simp
  qed
qed


section \<open>Facts about the operations\<close>

lemma selectEmoji_loop_first:
  "(\<exists>i<length es.
       sublist (fst (es ! i)) tc
       \<and> (\<forall>j<i. \<not> sublist (fst (es ! j)) tc)
       \<and> selectEmoji_loop es tc d = snd (es ! i))
   \<or> ((\<forall>e\<in>set es. \<not> sublist (fst e) tc) \<and> selectEmoji_loop es tc d = d)"
proof (induction es)
  case Nil
  show ?case by simp
next
  case (Cons p es)
  obtain k e where p: "p = (k, e)" by (cases p)
  show ?case
  proof (cases "sublist k tc")
    case True
    then have "sublist (fst ((p # es) ! 0)) tc
               \<and> (\<forall>j<0. \<not> sublist (fst ((p # es) ! j)) tc)
               \<and> selectEmoji_loop (p # es) tc d = snd ((p # es) ! 0)"
      by (simp add: p str_includes_iff_sublist)
    then show ?thesis by fastforce
  next
    case False
    then have step: "selectEmoji_loop (p # es) tc d = selectEmoji_loop es tc d"
      by (simp add: p str_includes_iff_sublist)
    from Cons.IH show ?thesis
    proof
      assume "\<exists>i<length es. sublist (fst (es ! i)) tc
                \<and> (\<forall>j<i. \<not> sublist (fst (es ! j)) tc)
                \<and> selectEmoji_loop es tc d = snd (es ! i)"
      then obtain i where i: "i < length es" "sublist (fst (es ! i)) tc"
          "\<forall>j<i. \<not> sublist (fst (es ! j)) tc" "selectEmoji_loop es tc d = snd (es ! i)"
        by blast
      have "\<forall>j<Suc i. \<not> sublist (fst ((p # es) ! j)) tc"
      proof (intro allI impI)
        fix j assume "j < Suc i"
        then show "\<not> sublist (fst ((p # es) ! j)) tc"
          using False i(3) p by (cases j) simp_all
      qed
      with i step have "Suc i < length (p # es)
            \<and> sublist (fst ((p # es) ! Suc i)) tc
            \<and> (\<forall>j<Suc i. \<not> sublist (fst ((p # es) ! j)) tc)
            \<and> selectEmoji_loop (p # es) tc d = snd ((p # es) ! Suc i)"
        by simp
      then show ?thesis by blast
    next
      assume "(\<forall>e\<in>set es. \<not> sublist (fst e) tc) \<and> selectEmoji_loop es tc d = d"
      with False step p show ?thesis by simp
    qed
  qed
qed

lemma renderTreeDiff_changes:
  "renderTreeDiff (TreeChanges changes) = concat (map changeBlock changes) @ nl"
  by (simp add: renderTreeDiff_def forEach_push_concat join_empty_sep concat_map_singleton)

lemma changeBlock_lines:
  assumes "\<forall>l\<in>set ls. CHR 0x0A \<notin> set l"
  shows "changeBlock \<lparr>change_value = concat (map (\<lambda>l. l @ nl) ls), added = a, removed = r\<rparr>
         = join nl (map (\<lambda>l. (if a then ''+ '' else if r then ''- '' else ''  '') @ l) ls) @ nl"
proof -
  have "str_split (CHR 0x0A) (concat (map (\<lambda>l. l @ nl) ls)) = ls @ [[]]"
    using assms by (rule str_split_lines)
  then show ?thesis
    by (simp add: changeBlock_def changePrefix_def slice_0_m1_def append_two_chars)
qed

lemma ourComments_filter: "ourComments toolchain cs = filter (matchesToolchain toolchain) cs"
  by (simp add: ourComments_def matchesToolchain_def[abs_def] str_includes_iff_sublist)

lemma filter_first_match:
  "\<exists>x\<in>set xs. P x \<Longrightarrow>
   \<exists>i<length xs. P (xs ! i) \<and> (\<forall>j<i. \<not> P (xs ! j)) \<and> filter P xs ! 0 = xs ! i"
proof (induction xs)
  case Nil
  then show ?case by simp
next
  case (Cons x xs)
  show ?case
  proof (cases "P x")
    case True
    then have "0 < length (x # xs) \<and> P ((x # xs) ! 0) \<and> (\<forall>j<0. \<not> P ((x # xs) ! j))
               \<and> filter P (x # xs) ! 0 = (x # xs) ! 0"
      by simp
    then show ?thesis by blast
  next
    case False
    with Cons.prems have "\<exists>x\<in>set xs. P x" by simp
    from Cons.IH[OF this] obtain i where i: "i < length xs" "P (xs ! i)"
        "\<forall>j<i. \<not> P (xs ! j)" "filter P xs ! 0 = xs ! i"
      by blast
    have "\<forall>j<Suc i. \<not> P ((x # xs) ! j)"
    proof (intro allI impI)
      fix j assume "j < Suc i"
      then show "\<not> P ((x # xs) ! j)" using False i(3) by (cases j) simp_all
    qed
    with i False have "Suc i < length (x # xs) \<and> P ((x # xs) ! Suc i)
               \<and> (\<forall>j<Suc i. \<not> P ((x # xs) ! j))
               \<and> filter P (x # xs) ! 0 = (x # xs) ! Suc i"
      by simp
    then show ?thesis by blast
  qed
qed

lemma update_by_id_distinct:
  assumes "distinct (map comment_id store)" and "c0 \<in> set store"
  shows "map (\<lambda>c. if comment_id c = comment_id c0 then c\<lparr>body := b\<rparr> else c) store
         = map (\<lambda>c. if c = c0 then c\<lparr>body := b\<rparr> else c) store"
proof (rule map_cong[OF refl])
  fix c assume "c \<in> set store"
  with assms have "comment_id c = comment_id c0 \<longleftrightarrow> c = c0"
    by (auto simp: distinct_map dest: inj_onD)
  then show "(if comment_id c = comment_id c0 then c\<lparr>body := b\<rparr> else c)
             = (if c = c0 then c\<lparr>body := b\<rparr> else c)"
    by simp
qed

lemma createOrUpdateComment_requests:
  "status comments = 200 \<Longrightarrow>
   snd (createOrUpdateComment ctx toolchain message comments)
   = (if ourComments toolchain (data comments) = []
      then [IssuesCreateComment message (issue_number ctx) (owner ctx) (repo ctx)]
      else [IssuesUpdateComment message (comment_id (ourComments toolchain (data comments) ! 0))
              (owner ctx) (repo ctx)])"
  by (simp add: createOrUpdateComment_def Let_def postNewComment_def updateComment_def)


lemma innerComment_single: "innerComment ext [s] = createSnapshotComment ext s"
  by (simp add: innerComment_def)

lemma innerComment_many_join:
  "1 < length snapshots \<Longrightarrow>
   innerComment ext snapshots
   = join nl (map (\<lambda>s. ''<details>'' @ nl
                   @ ''<summary><strong>'' @ packageName s @ ''</strong>''
                   @ (if shouldIncludeInDiff ext (currentSize s) (oldSize s)
                      then '' (Changes :warning:)'' else [])
                   @ ''</summary>'' @ nl @ ''<br />'' @ nl
                   @ createSnapshotComment ext s @ nl @ ''</details>'') snapshots)"
  by (simp add: innerComment_def snapshotSection_def[abs_def] Let_def)

lemma innerComment_many_concat:
  assumes "1 < length snapshots"
  shows "innerComment ext snapshots
         = snapshotSection ext (hd snapshots)
           @ concat (map (\<lambda>s. nl @ snapshotSection ext s) (tl snapshots))"
proof -
  from assms obtain x xs where "snapshots = x # xs" by (cases snapshots) simp_all
  with assms show ?thesis
    by (simp add: innerComment_def join_Cons comp_def)
qed

lemma renderTreeDiff_lines:
  assumes lines: "\<forall>seg\<in>set segs. \<forall>l\<in>set (snd (snd seg)). CHR 0x0A \<notin> set l"
  shows "renderTreeDiff (TreeChanges (map (\<lambda>(a, r, ls).
            \<lparr>change_value = concat (map (\<lambda>l. l @ nl) ls), added = a, removed = r\<rparr>) segs))
         = concat (map (\<lambda>(a, r, ls).
            join nl (map (\<lambda>l. (if a then ''+ '' else if r then ''- '' else ''  '') @ l) ls) @ nl)
            segs) @ nl"
proof -
  have "map changeBlock (map (\<lambda>(a, r, ls).
            \<lparr>change_value = concat (map (\<lambda>l. l @ nl) ls), added = a, removed = r\<rparr>) segs)
        = map (\<lambda>(a, r, ls).
            join nl (map (\<lambda>l. (if a then ''+ '' else if r then ''- '' else ''  '') @ l) ls) @ nl)
            segs"
    using lines by (induction segs) (auto simp: changeBlock_lines)
  then show ?thesis
    by (simp only: renderTreeDiff_changes)
qed

lemma dependencyCountDiff_cases:
  "(oldDependenciesCount diff = newDependenciesCount diff \<longrightarrow>
      dependencyCountDiff diff = ''Count: '' @ string_of_number (oldDependenciesCount diff)
      \<and> CHR 0x0A \<notin> set (dependencyCountDiff diff))
   \<and> (oldDependenciesCount diff \<noteq> newDependenciesCount diff \<longrightarrow>
      dependencyCountDiff diff =
        ''- Count: '' @ string_of_number (oldDependenciesCount diff) @ nl
        @ ''+ Count: '' @ string_of_number (newDependenciesCount diff))
   \<and> ((\<exists>n. dependencyCountDiff diff = ''Count: '' @ string_of_number n)
        \<longleftrightarrow> oldDependenciesCount diff = newDependenciesCount diff)"
  using nl_not_in_number[of "oldDependenciesCount diff"]
  by (auto simp: dependencyCountDiff_def)

lemma sizeRows_delta:
  "(shouldIncludeInDiff ext (currentSize diff) (oldSize diff) \<and> oldSize diff = Some v
      \<and> sizeDifference diff = currentSize diff - v \<longrightarrow>
      totalSizeRows ext diff
        = [(''- Size'', fileSize ext (Some v), []),
           (''+ Size'', fileSize ext (Some (currentSize diff)),
            (if v < currentSize diff then ''+'' else [])
              @ fileSize ext (Some (currentSize diff - v)))]
      \<and> ((\<forall>x. \<not> prefix ''+'' (fileSize ext x)) \<longrightarrow>
           (prefix ''+'' (snd (snd (totalSizeRows ext diff ! 1))) \<longleftrightarrow> v < currentSize diff)))
   \<and> (shouldIncludeInDiff ext (currentTextSize diff) (oldTextSize diff) \<and> oldTextSize diff = Some w
      \<and> textDifference diff = currentTextSize diff - w \<longrightarrow>
      textSizeRows ext diff
        = [(''- Text Size'', fileSize ext (Some w), []),
           (''+ Text Size'', fileSize ext (Some (currentTextSize diff)),
            (if w < currentTextSize diff then ''+'' else [])
              @ fileSize ext (Some (currentTextSize diff - w)))]
      \<and> ((\<forall>x. \<not> prefix ''+'' (fileSize ext x)) \<longrightarrow>
           (prefix ''+'' (snd (snd (textSizeRows ext diff ! 1))) \<longleftrightarrow> w < currentTextSize diff)))"
  by (simp add: totalSizeRows_def textSizeRows_def)


section \<open>The claims\<close>

text \<open>
  Claim C1 (total-size row when old and new are not meaningfully different). The claim has
  the single row labelled \<open>Size\<close> show the humanized \<^verbatim>\<open>currentSize\<close>. The source calls
  \<^verbatim>\<open>fileSize(diff.currentTextSize)\<close> there. For the first-run snapshot \<open>snapshotFirst\<close>
  (old size absent, total size 900, text size 300) the comparison decision is false, the
  one row pushed for the total size is \<open>Size | 300 B\<close>, and the humanized total size would
  have been \<open>900 B\<close>.
\<close>

theorem totalSizeRows_shows_text_size:
  "\<not> shouldIncludeInDiff sampleImports (currentSize snapshotFirst) (oldSize snapshotFirst)
   \<and> totalSizeRows sampleImports snapshotFirst = [(''Size'', ''300 B'', [])]
   \<and> fileSize sampleImports (Some (currentSize snapshotFirst)) = ''900 B''"
  by (simp add: totalSizeRows_def sampleImports_def snapshotFirst_def shouldIncludeInDiff_spec_def
      fileSize_bytes_def eval_number)

text \<open>
  Claim C2 (rows of one crate entry). The claim has a removed row whenever the old size is
  present and differs from the new one, a present size of 0 included. The source tests
  presence there by truthiness (\<^verbatim>\<open>if (d.old)\<close>), and 0 is falsy: for the entry \<open>z\<close> with old
  size 0 and new size 5 only the added row is pushed, and with old size 5 and new size 0
  only the removed row. The first test of the callback compares with \<^verbatim>\<open>null\<close>, and the
  branch for equal sizes prints a size of 0: the entry with both sizes 0 gets its row.
\<close>

theorem crateRows_zero_size:
  "crateRows sampleImports \<lparr>name = ''z'', old = Some 0, new = Some 5\<rparr> = [(''+ z'', ''5 B'')]
   \<and> crateRows sampleImports \<lparr>name = ''z'', old = Some 5, new = Some 0\<rparr> = [(''- z'', ''5 B'')]
   \<and> crateRows sampleImports \<lparr>name = ''z'', old = Some 0, new = Some 0\<rparr> = [(''z'', ''0 B'')]"
  by (simp add: crateRows_def truthy_def sampleImports_def fileSize_bytes_def eval_number)

text \<open>
  Claim C3 (create or update). After a listing with status 200, the run sends exactly one
  request. It is the creation of a comment with the message exactly when no listed comment
  matches (written by the bot identity, with the toolchain label as a substring of its
  body). When some listed comment matches, it is the update of the first listed match, by
  its id, with the message; on any comments of the issue that contain the listed ones and
  have distinct ids, that request replaces the body of that one comment and leaves every
  other comment, the later matches included, as it was.
\<close>

theorem createOrUpdateComment_upsert:
  assumes "status comments = 200"
  shows "(snd (createOrUpdateComment ctx toolchain message comments)
            = [IssuesCreateComment message (issue_number ctx) (owner ctx) (repo ctx)]
          \<longleftrightarrow> (\<forall>c\<in>set (data comments). \<not> matchesToolchain toolchain c))
       \<and> ((\<exists>c\<in>set (data comments). matchesToolchain toolchain c) \<longrightarrow>
            (\<exists>i<length (data comments).
               matchesToolchain toolchain (data comments ! i)
               \<and> (\<forall>j<i. \<not> matchesToolchain toolchain (data comments ! j))
               \<and> snd (createOrUpdateComment ctx toolchain message comments)
                   = [IssuesUpdateComment message (comment_id (data comments ! i))
                        (owner ctx) (repo ctx)]
               \<and> (\<forall>store mk.
                     distinct (map comment_id store) \<and> set (data comments) \<subseteq> set store \<longrightarrow>
                     performAll mk (snd (createOrUpdateComment ctx toolchain message comments)) store
                     = map (\<lambda>c. if c = data comments ! i then c\<lparr>body := message\<rparr> else c) store)))
       \<and> length (snd (createOrUpdateComment ctx toolchain message comments)) = 1"
proof (intro conjI impI)
  note reqs = createOrUpdateComment_requests[OF assms, of ctx toolchain message]
  have empty_iff: "ourComments toolchain (data comments) = []
                   \<longleftrightarrow> (\<forall>c\<in>set (data comments). \<not> matchesToolchain toolchain c)"
    by (simp add: ourComments_filter filter_empty_conv)
  show "snd (createOrUpdateComment ctx toolchain message comments)
            = [IssuesCreateComment message (issue_number ctx) (owner ctx) (repo ctx)]
          \<longleftrightarrow> (\<forall>c\<in>set (data comments). \<not> matchesToolchain toolchain c)"
    using empty_iff by (simp add: reqs)
  show "length (snd (createOrUpdateComment ctx toolchain message comments)) = 1"
    by (simp add: reqs)
  assume ex: "\<exists>c\<in>set (data comments). matchesToolchain toolchain c"
  from filter_first_match[OF ex] obtain i where i: "i < length (data comments)"
      "matchesToolchain toolchain (data comments ! i)"
      "\<forall>j<i. \<not> matchesToolchain toolchain (data comments ! j)"
      "filter (matchesToolchain toolchain) (data comments) ! 0 = data comments ! i"
    by blast
  from ex empty_iff have ne: "ourComments toolchain (data comments) \<noteq> []" by blast
  have r: "snd (createOrUpdateComment ctx toolchain message comments)
           = [IssuesUpdateComment message (comment_id (data comments ! i)) (owner ctx) (repo ctx)]"
    using ne i(4) by (simp add: reqs ourComments_filter)
  have st: "\<forall>store mk.
              distinct (map comment_id store) \<and> set (data comments) \<subseteq> set store \<longrightarrow>
              performAll mk (snd (createOrUpdateComment ctx toolchain message comments)) store
              = map (\<lambda>c. if c = data comments ! i then c\<lparr>body := message\<rparr> else c) store"
  proof (intro allI impI)
    fix store :: "Comment list" and mk :: "string \<Rightarrow> Comment"
    assume a: "distinct (map comment_id store) \<and> set (data comments) \<subseteq> set store"
    with i(1) have "data comments ! i \<in> set store" by (meson nth_mem subsetD)
    with a show "performAll mk (snd (createOrUpdateComment ctx toolchain message comments)) store
              = map (\<lambda>c. if c = data comments ! i then c\<lparr>body := message\<rparr> else c) store"
      by (simp add: r performAll_def update_by_id_distinct)
  qed
  from i(1) i(2) i(3) r st
  show "\<exists>i<length (data comments).
               matchesToolchain toolchain (data comments ! i)
               \<and> (\<forall>j<i. \<not> matchesToolchain toolchain (data comments ! j))
               \<and> snd (createOrUpdateComment ctx toolchain message comments)
                   = [IssuesUpdateComment message (comment_id (data comments ! i))
                        (owner ctx) (repo ctx)]
               \<and> (\<forall>store mk.
                     distinct (map comment_id store) \<and> set (data comments) \<subseteq> set store \<longrightarrow>
                     performAll mk (snd (createOrUpdateComment ctx toolchain message comments)) store
                     = map (\<lambda>c. if c = data comments ! i then c\<lparr>body := message\<rparr> else c) store)"
    by blast
qed

text \<open>The theorem of claim C3 at a concrete input.\<close>

theorem createOrUpdateComment_upsert_witness:
  "status sampleListing = 200
   \<and> (\<exists>c\<in>set (data sampleListing). matchesToolchain ''x86_64-unknown-linux-gnu'' c)
   \<and> snd (createOrUpdateComment sampleContext ''x86_64-unknown-linux-gnu'' ''report'' sampleListing)
     = [IssuesUpdateComment ''report'' 12 ''izzyhub'' ''cargo-bloat-action'']
   \<and> length (snd (createOrUpdateComment sampleContext ''x86_64-unknown-linux-gnu'' ''report''
        sampleListing)) = 1
   \<and> snd (createOrUpdateComment sampleContext ''wasm32-unknown-unknown'' ''report'' sampleListing)
     = [IssuesCreateComment ''report'' 42 ''izzyhub'' ''cargo-bloat-action'']"
proof -
  have ok: "status sampleListing = 200"
    by (simp add: sampleListing_def)
  have ex: "\<exists>c\<in>set (data sampleListing). matchesToolchain ''x86_64-unknown-linux-gnu'' c"
    by (simp add: sampleListing_def matchesToolchain_def str_includes_iff_sublist[symmetric])
  have len: "length (snd (createOrUpdateComment sampleContext ''x86_64-unknown-linux-gnu''
        ''report'' sampleListing)) = 1"
    using createOrUpdateComment_upsert[OF ok, of sampleContext "''x86_64-unknown-linux-gnu''"
        "''report''"]
    by blast
  have upd: "snd (createOrUpdateComment sampleContext ''x86_64-unknown-linux-gnu'' ''report''
        sampleListing)
     = [IssuesUpdateComment ''report'' 12 ''izzyhub'' ''cargo-bloat-action'']"
    by (simp add: createOrUpdateComment_def Let_def ourComments_def updateComment_def
        postNewComment_def sampleListing_def sampleContext_def)
  have new: "snd (createOrUpdateComment sampleContext ''wasm32-unknown-unknown'' ''report''
        sampleListing)
     = [IssuesCreateComment ''report'' 42 ''izzyhub'' ''cargo-bloat-action'']"
    by (simp add: createOrUpdateComment_def Let_def ourComments_def updateComment_def
        postNewComment_def sampleListing_def sampleContext_def)
  from ok ex len upd new show ?thesis by simp
qed

text \<open>
  Claim C4 (listing failure). When the status of the listing is not 200, the run reports
  one failure, \<open>Error fetching comments for MR\<close> followed by the issue number, after the
  opening information line, and sends no request: the comments of the issue stay as they
  were.
\<close>

theorem createOrUpdateComment_listing_failure:
  assumes "status comments \<noteq> 200"
  shows "createOrUpdateComment ctx toolchain message comments
         = ([Info (''Find comments for issue: '' @ string_of_nat (issue_number ctx)),
             SetFailed (''Error fetching comments for MR '' @ string_of_nat (issue_number ctx))],
            [])
       \<and> performAll mk (snd (createOrUpdateComment ctx toolchain message comments)) store = store"
  using assms by (simp add: createOrUpdateComment_def performAll_def)

text \<open>The theorem of claim C4 at a concrete input.\<close>

theorem createOrUpdateComment_listing_failure_witness:
  "status failedListing \<noteq> 200
   \<and> createOrUpdateComment sampleContext ''x86_64-unknown-linux-gnu'' ''report'' failedListing
     = ([Info ''Find comments for issue: 42'',
         SetFailed ''Error fetching comments for MR 42''], [])"
proof -
  have bad: "status failedListing \<noteq> 200"
    by (simp add: failedListing_def)
  from createOrUpdateComment_listing_failure[OF bad, of sampleContext
      "''x86_64-unknown-linux-gnu''" "''report''"] bad
  show ?thesis
    by (simp add: sampleContext_def string_of_nat.simps)
qed

text \<open>
  Claim C5 (sections of the comment). \<^verbatim>\<open>createComment\<close> returns its template around the
  inner comment: the marker line, the inner comment, the commit line. For a single
  snapshot the inner comment is that snapshot's fragment itself, with nothing around it.
  For more than one snapshot it is the snapshots' sections in input order, joined by line
  feeds: each section is a \<open>details\<close> element whose summary is the snapshot's package name
  in bold, followed by the warning suffix exactly when the comparison decision holds of
  the snapshot's total size pair, and whose content is the snapshot's fragment.
\<close>

theorem createComment_sections:
  "createComment ext ctx masterCommit currentCommit toolchain snapshots
   = nl @ ''  :'' @ selectedEmoji toolchain @ '': Cargo bloat for toolchain **'' @ toolchain
     @ ''** :'' @ selectedEmoji toolchain @ '':'' @ nl
     @ nl
     @ ''  '' @ innerComment ext snapshots @ nl
     @ nl
     @ ''  Commit: '' @ currentCommit @ '' '' @ compareCommitText ctx masterCommit currentCommit @ nl
     @ ''  ''
   \<and> (snapshots = [s] \<longrightarrow> innerComment ext snapshots = createSnapshotComment ext s)
   \<and> (1 < length snapshots \<longrightarrow>
        innerComment ext snapshots
        = join nl (map (\<lambda>s. ''<details>'' @ nl
                        @ ''<summary><strong>'' @ packageName s @ ''</strong>''
                        @ (if shouldIncludeInDiff ext (currentSize s) (oldSize s)
                           then '' (Changes :warning:)'' else [])
                        @ ''</summary>'' @ nl @ ''<br />'' @ nl
                        @ createSnapshotComment ext s @ nl @ ''</details>'') snapshots)
        \<and> innerComment ext snapshots
          = snapshotSection ext (hd snapshots)
            @ concat (map (\<lambda>s. nl @ snapshotSection ext s) (tl snapshots)))"
proof (intro conjI impI)
  show "createComment ext ctx masterCommit currentCommit toolchain snapshots
   = nl @ ''  :'' @ selectedEmoji toolchain @ '': Cargo bloat for toolchain **'' @ toolchain
     @ ''** :'' @ selectedEmoji toolchain @ '':'' @ nl
     @ nl
     @ ''  '' @ innerComment ext snapshots @ nl
     @ nl
     @ ''  Commit: '' @ currentCommit @ '' '' @ compareCommitText ctx masterCommit currentCommit @ nl
     @ ''  ''"
    by (simp add: createComment_def)
next
  assume "snapshots = [s]"
  then show "innerComment ext snapshots = createSnapshotComment ext s"
    by (simp add: innerComment_single)
next
  assume "1 < length snapshots"
  then show "innerComment ext snapshots
        = join nl (map (\<lambda>s. ''<details>'' @ nl
                        @ ''<summary><strong>'' @ packageName s @ ''</strong>''
                        @ (if shouldIncludeInDiff ext (currentSize s) (oldSize s)
                           then '' (Changes :warning:)'' else [])
                        @ ''</summary>'' @ nl @ ''<br />'' @ nl
                        @ createSnapshotComment ext s @ nl @ ''</details>'') snapshots)"
    by (rule innerComment_many_join)
next
  assume "1 < length snapshots"
  then show "innerComment ext snapshots
          = snapshotSection ext (hd snapshots)
            @ concat (map (\<lambda>s. nl @ snapshotSection ext s) (tl snapshots))"
    by (rule innerComment_many_concat)
qed

text \<open>
  The theorem of claim C5 at concrete inputs: the comment for the first-run snapshot alone,
  and the comment for two snapshots, the second with a changed total size.
\<close>

theorem createComment_sections_witness:
  "1 < length [snapshotFirst, snapshotChanged]
   \<and> createComment sampleImports sampleContext None ''abc123'' ''x86_64-apple-darwin''
       [snapshotFirst]
     = nl @ ''  :apple: Cargo bloat for toolchain **x86_64-apple-darwin** :apple:'' @ nl
       @ nl
       @ ''  '' @ createSnapshotComment sampleImports snapshotFirst @ nl
       @ nl
       @ ''  Commit: abc123 '' @ nl
       @ ''  ''
   \<and> createComment sampleImports sampleContext (Some ''def456'') ''abc123'' ''x86_64-apple-darwin''
       [snapshotFirst, snapshotChanged]
     = nl @ ''  :apple: Cargo bloat for toolchain **x86_64-apple-darwin** :apple:'' @ nl
       @ nl
       @ ''  '' @ ''<details>'' @ nl @ ''<summary><strong>app</strong></summary>'' @ nl
       @ ''<br />'' @ nl
       @ createSnapshotComment sampleImports snapshotFirst @ nl @ ''</details>''
       @ nl
       @ ''<details>'' @ nl @ ''<summary><strong>tool</strong> (Changes :warning:)</summary>'' @ nl
       @ ''<br />'' @ nl
       @ createSnapshotComment sampleImports snapshotChanged @ nl @ ''</details>'' @ nl
       @ nl
       @ ''  Commit: abc123 ([Compare with baseline commit](https://gitea.izzys.place/izzyhub/cargo-bloat-action/compare/def456..abc123))''
       @ nl
       @ ''  ''"
proof -
  note one = createComment_sections[where snapshots = "[snapshotFirst]" and s = snapshotFirst
      and ext = sampleImports and ctx = sampleContext and masterCommit = None
      and currentCommit = "''abc123''" and toolchain = "''x86_64-apple-darwin''"]
  note two = createComment_sections[where snapshots = "[snapshotFirst, snapshotChanged]"
      and s = snapshotFirst and ext = sampleImports and ctx = sampleContext
      and masterCommit = "Some ''def456''" and currentCommit = "''abc123''"
      and toolchain = "''x86_64-apple-darwin''"]
  have many: "1 < length [snapshotFirst, snapshotChanged]" by simp
  have emoji: "selectedEmoji ''x86_64-apple-darwin'' = ''apple''"
    by (simp add: selectedEmoji_def emojiList_def)
  have nameF: "packageName snapshotFirst = ''app''"
    and nameC: "packageName snapshotChanged = ''tool''"
    and incF: "\<not> shouldIncludeInDiff sampleImports (currentSize snapshotFirst) (oldSize snapshotFirst)"
    and incC: "shouldIncludeInDiff sampleImports (currentSize snapshotChanged) (oldSize snapshotChanged)"
    by (simp_all add: snapshotFirst_def snapshotChanged_def sampleImports_def
        shouldIncludeInDiff_spec_def)
  have inner1: "innerComment sampleImports [snapshotFirst]
                = createSnapshotComment sampleImports snapshotFirst"
    using one[THEN conjunct2, THEN conjunct1] by simp
  have inner2: "innerComment sampleImports [snapshotFirst, snapshotChanged]
        = snapshotSection sampleImports snapshotFirst
          @ nl @ snapshotSection sampleImports snapshotChanged"
    using two[THEN conjunct2, THEN conjunct2, rule_format, OF many, THEN conjunct2] by simp
  have c1: "createComment sampleImports sampleContext None ''abc123'' ''x86_64-apple-darwin''
       [snapshotFirst]
     = nl @ ''  :apple: Cargo bloat for toolchain **x86_64-apple-darwin** :apple:'' @ nl
       @ nl
       @ ''  '' @ createSnapshotComment sampleImports snapshotFirst @ nl
       @ nl
       @ ''  Commit: abc123 '' @ nl
       @ ''  ''"
    using one[THEN conjunct1] by (simp add: inner1 emoji compareCommitText_def)
  have c2: "createComment sampleImports sampleContext (Some ''def456'') ''abc123''
       ''x86_64-apple-darwin'' [snapshotFirst, snapshotChanged]
     = nl @ ''  :apple: Cargo bloat for toolchain **x86_64-apple-darwin** :apple:'' @ nl
       @ nl
       @ ''  '' @ ''<details>'' @ nl @ ''<summary><strong>app</strong></summary>'' @ nl
       @ ''<br />'' @ nl
       @ createSnapshotComment sampleImports snapshotFirst @ nl @ ''</details>''
       @ nl
       @ ''<details>'' @ nl @ ''<summary><strong>tool</strong> (Changes :warning:)</summary>'' @ nl
       @ ''<br />'' @ nl
       @ createSnapshotComment sampleImports snapshotChanged @ nl @ ''</details>'' @ nl
       @ nl
       @ ''  Commit: abc123 ([Compare with baseline commit](https://gitea.izzys.place/izzyhub/cargo-bloat-action/compare/def456..abc123))''
       @ nl
       @ ''  ''"
    using two[THEN conjunct1]
    by (simp add: inner2 emoji compareCommitText_def snapshotSection_def Let_def
        nameF nameC incF incC sampleContext_def)
  from many c1 c2 show ?thesis by (intro conjI)
qed

text \<open>
  Claim C6 (dependency tree diff). The fragment \<^verbatim>\<open>createSnapshotComment\<close> returns carries
  the rendered tree diff in its dependency tree section, after the count summary and an
  empty line. A tree diff given as a string is rendered as it is. For tagged segments whose
  text is a sequence of lines, each ended by a line feed and containing none, the rendering
  is the segments' blocks in input order followed by one line feed; a block is the
  segment's lines, each after \<open>+\<close> and a space for an added segment, \<open>-\<close> and a space for a
  removed one and two spaces otherwise, joined by line feeds and followed by a line feed.
\<close>

theorem createSnapshotComment_treeDiff:
  "createSnapshotComment ext diff
   = nl @ ''```diff'' @ nl
     @ ''@@ Size breakdown @@'' @ nl
     @ nl
     @ table ext (map (\<lambda>(a, b, c). [a, b, c]) (totalSizeRows ext diff @ textSizeRows ext diff)) @ nl
     @ nl
     @ ''```'' @ nl
     @ nl
     @ crateDetailsText ext diff @ nl
     @ nl
     @ nl @ ''<details>'' @ nl
     @ ''<summary>Dependency tree</summary>'' @ nl
     @ ''<br />'' @ nl
     @ nl
     @ ''```diff'' @ nl
     @ ''@@ Dependency tree @@'' @ nl
     @ dependencyCountDiff diff @ nl
     @ nl
     @ renderTreeDiff (treeDiff diff) @ nl
     @ ''```'' @ nl
     @ nl
     @ ''</details>'' @ nl
     @ nl
   \<and> renderTreeDiff (TreeString s) = s
   \<and> ((\<forall>seg\<in>set segs. \<forall>l\<in>set (snd (snd seg)). CHR 0x0A \<notin> set l) \<longrightarrow>
        renderTreeDiff (TreeChanges (map (\<lambda>(a, r, ls).
            \<lparr>change_value = concat (map (\<lambda>l. l @ nl) ls), added = a, removed = r\<rparr>) segs))
        = concat (map (\<lambda>(a, r, ls).
            join nl (map (\<lambda>l. (if a then ''+ '' else if r then ''- '' else ''  '') @ l) ls) @ nl)
            segs) @ nl)"
proof (intro conjI impI)
  show "createSnapshotComment ext diff
   = nl @ ''```diff'' @ nl
     @ ''@@ Size breakdown @@'' @ nl
     @ nl
     @ table ext (map (\<lambda>(a, b, c). [a, b, c]) (totalSizeRows ext diff @ textSizeRows ext diff)) @ nl
     @ nl
     @ ''```'' @ nl
     @ nl
     @ crateDetailsText ext diff @ nl
     @ nl
     @ nl @ ''<details>'' @ nl
     @ ''<summary>Dependency tree</summary>'' @ nl
     @ ''<br />'' @ nl
     @ nl
     @ ''```diff'' @ nl
     @ ''@@ Dependency tree @@'' @ nl
     @ dependencyCountDiff diff @ nl
     @ nl
     @ renderTreeDiff (treeDiff diff) @ nl
     @ ''```'' @ nl
     @ nl
     @ ''</details>'' @ nl
     @ nl"
    by (simp add: createSnapshotComment_def treeDiffText_def sizeTableRows_def)
next
  show "renderTreeDiff (TreeString s) = s"
    by (simp add: renderTreeDiff_def)
next
  assume "\<forall>seg\<in>set segs. \<forall>l\<in>set (snd (snd seg)). CHR 0x0A \<notin> set l"
  then show "renderTreeDiff (TreeChanges (map (\<lambda>(a, r, ls).
            \<lparr>change_value = concat (map (\<lambda>l. l @ nl) ls), added = a, removed = r\<rparr>) segs))
        = concat (map (\<lambda>(a, r, ls).
            join nl (map (\<lambda>l. (if a then ''+ '' else if r then ''- '' else ''  '') @ l) ls) @ nl)
            segs) @ nl"
    by (rule renderTreeDiff_lines)
qed

text \<open>
  The theorem of claim C6 at concrete inputs: the fragments of the first-run snapshot (tree
  diff given as a string) and of the changed snapshot (an unchanged segment of one line and
  an added segment of two lines).
\<close>

theorem createSnapshotComment_treeDiff_witness:
  "CHR 0x0A \<notin> set ''tool v0.1.0'' \<and> CHR 0x0A \<notin> set ''dep v1.0.0''
   \<and> CHR 0x0A \<notin> set ''sub v0.3.0''
   \<and> createSnapshotComment sampleImports snapshotFirst
     = nl @ ''```diff'' @ nl
       @ ''@@ Size breakdown @@'' @ nl
       @ nl
       @ table sampleImports (map (\<lambda>(a, b, c). [a, b, c])
           (totalSizeRows sampleImports snapshotFirst @ textSizeRows sampleImports snapshotFirst))
       @ nl
       @ nl
       @ ''```'' @ nl
       @ nl
       @ crateDetailsText sampleImports snapshotFirst @ nl
       @ nl
       @ nl @ ''<details>'' @ nl
       @ ''<summary>Dependency tree</summary>'' @ nl
       @ ''<br />'' @ nl
       @ nl
       @ ''```diff'' @ nl
       @ ''@@ Dependency tree @@'' @ nl
       @ dependencyCountDiff snapshotFirst @ nl
       @ nl
       @ ''app v0.1.0'' @ nl
       @ ''```'' @ nl
       @ nl
       @ ''</details>'' @ nl
       @ nl
   \<and> createSnapshotComment sampleImports snapshotChanged
     = nl @ ''```diff'' @ nl
       @ ''@@ Size breakdown @@'' @ nl
       @ nl
       @ table sampleImports (map (\<lambda>(a, b, c). [a, b, c])
           (totalSizeRows sampleImports snapshotChanged
            @ textSizeRows sampleImports snapshotChanged))
       @ nl
       @ nl
       @ ''```'' @ nl
       @ nl
       @ crateDetailsText sampleImports snapshotChanged @ nl
       @ nl
       @ nl @ ''<details>'' @ nl
       @ ''<summary>Dependency tree</summary>'' @ nl
       @ ''<br />'' @ nl
       @ nl
       @ ''```diff'' @ nl
       @ ''@@ Dependency tree @@'' @ nl
       @ dependencyCountDiff snapshotChanged @ nl
       @ nl
       @ ''  tool v0.1.0'' @ nl @ ''+ dep v1.0.0'' @ nl @ ''+ sub v0.3.0'' @ nl @ nl @ nl
       @ ''```'' @ nl
       @ nl
       @ ''</details>'' @ nl
       @ nl"
proof -
  note first = createSnapshotComment_treeDiff[where ext = sampleImports and diff = snapshotFirst
      and s = "''app v0.1.0''"
      and segs = "[(False, False, [''tool v0.1.0'']), (True, False, [''dep v1.0.0'', ''sub v0.3.0''])]"]
  note changed = createSnapshotComment_treeDiff[where ext = sampleImports
      and diff = snapshotChanged and s = "''app v0.1.0''"
      and segs = "[(False, False, [''tool v0.1.0'']), (True, False, [''dep v1.0.0'', ''sub v0.3.0''])]"]
  have free: "CHR 0x0A \<notin> set ''tool v0.1.0''" "CHR 0x0A \<notin> set ''dep v1.0.0''"
      "CHR 0x0A \<notin> set ''sub v0.3.0''"
    by simp_all
  have t1: "renderTreeDiff (treeDiff snapshotFirst) = ''app v0.1.0''"
    using first[THEN conjunct2, THEN conjunct1] by (simp add: snapshotFirst_def)
  have t2: "renderTreeDiff (treeDiff snapshotChanged)
            = ''  tool v0.1.0'' @ nl @ ''+ dep v1.0.0'' @ nl @ ''+ sub v0.3.0'' @ nl @ nl"
    using changed[THEN conjunct2, THEN conjunct2] by (simp add: snapshotChanged_def)
  note e1 = first[THEN conjunct1, unfolded t1]
  note e2 = changed[THEN conjunct1, unfolded t2]
  from free e1 e2 show ?thesis by simp
qed

text \<open>
  Claim C7 (sign of the delta). The size table of the fragment \<^verbatim>\<open>createSnapshotComment\<close>
  returns is the table of the rows of the total pair followed by the rows of the text pair.
  For each of the two pairs: when the comparison decision holds, the old value is present
  and the difference field is the current value minus the old one, the rows are the removed
  row with the humanized old value and the added row with the humanized current value and
  a delta that is the humanized difference, after a \<open>+\<close> exactly when the current value is
  greater than the old one. With a humanizer whose output never starts with \<open>+\<close>, the delta
  starts with \<open>+\<close> exactly when the current value is greater than the old one.
\<close>

theorem createSnapshotComment_size_delta:
  "createSnapshotComment ext diff
   = nl @ ''```diff'' @ nl
     @ ''@@ Size breakdown @@'' @ nl
     @ nl
     @ table ext (map (\<lambda>(a, b, c). [a, b, c]) (totalSizeRows ext diff @ textSizeRows ext diff)) @ nl
     @ nl
     @ ''```'' @ nl
     @ nl
     @ crateDetailsText ext diff @ nl
     @ nl
     @ treeDiffText diff @ nl
   \<and> (shouldIncludeInDiff ext (currentSize diff) (oldSize diff) \<and> oldSize diff = Some v
      \<and> sizeDifference diff = currentSize diff - v \<longrightarrow>
      totalSizeRows ext diff
        = [(''- Size'', fileSize ext (Some v), []),
           (''+ Size'', fileSize ext (Some (currentSize diff)),
            (if v < currentSize diff then ''+'' else [])
              @ fileSize ext (Some (currentSize diff - v)))]
      \<and> ((\<forall>x. \<not> prefix ''+'' (fileSize ext x)) \<longrightarrow>
           (prefix ''+'' (snd (snd (totalSizeRows ext diff ! 1))) \<longleftrightarrow> v < currentSize diff)))
   \<and> (shouldIncludeInDiff ext (currentTextSize diff) (oldTextSize diff) \<and> oldTextSize diff = Some w
      \<and> textDifference diff = currentTextSize diff - w \<longrightarrow>
      textSizeRows ext diff
        = [(''- Text Size'', fileSize ext (Some w), []),
           (''+ Text Size'', fileSize ext (Some (currentTextSize diff)),
            (if w < currentTextSize diff then ''+'' else [])
              @ fileSize ext (Some (currentTextSize diff - w)))]
      \<and> ((\<forall>x. \<not> prefix ''+'' (fileSize ext x)) \<longrightarrow>
           (prefix ''+'' (snd (snd (textSizeRows ext diff ! 1))) \<longleftrightarrow> w < currentTextSize diff)))"
proof -
  have "createSnapshotComment ext diff
   = nl @ ''```diff'' @ nl
     @ ''@@ Size breakdown @@'' @ nl
     @ nl
     @ table ext (map (\<lambda>(a, b, c). [a, b, c]) (totalSizeRows ext diff @ textSizeRows ext diff)) @ nl
     @ nl
     @ ''```'' @ nl
     @ nl
     @ crateDetailsText ext diff @ nl
     @ nl
     @ treeDiffText diff @ nl"
    by (simp add: createSnapshotComment_def sizeTableRows_def)
  from this sizeRows_delta[of ext diff v w] show ?thesis by (rule conjI)
qed

text \<open>
  The theorem of claim C7 at a concrete input: the changed snapshot, whose total size grew
  by 100 and whose text size shrank by 100.
\<close>

theorem createSnapshotComment_size_delta_witness:
  "shouldIncludeInDiff sampleImports (currentSize snapshotChanged) (oldSize snapshotChanged)
   \<and> shouldIncludeInDiff sampleImports (currentTextSize snapshotChanged) (oldTextSize snapshotChanged)
   \<and> (\<forall>x. \<not> prefix ''+'' (fileSize sampleImports x))
   \<and> totalSizeRows sampleImports snapshotChanged
     = [(''- Size'', ''800 B'', []), (''+ Size'', ''900 B'', ''+100 B'')]
   \<and> textSizeRows sampleImports snapshotChanged
     = [(''- Text Size'', ''400 B'', []), (''+ Text Size'', ''300 B'', ''-100 B'')]
   \<and> createSnapshotComment sampleImports snapshotChanged
     = nl @ ''```diff'' @ nl
       @ ''@@ Size breakdown @@'' @ nl
       @ nl
       @ table sampleImports
           [[''- Size'', ''800 B'', []], [''+ Size'', ''900 B'', ''+100 B''],
            [''- Text Size'', ''400 B'', []], [''+ Text Size'', ''300 B'', ''-100 B'']] @ nl
       @ nl
       @ ''```'' @ nl
       @ nl
       @ crateDetailsText sampleImports snapshotChanged @ nl
       @ nl
       @ treeDiffText snapshotChanged @ nl"
proof -
  note inst = createSnapshotComment_size_delta[of sampleImports snapshotChanged 800 400]
  have i1: "shouldIncludeInDiff sampleImports (currentSize snapshotChanged) (oldSize snapshotChanged)"
    and i2: "shouldIncludeInDiff sampleImports (currentTextSize snapshotChanged)
               (oldTextSize snapshotChanged)"
    by (simp_all add: snapshotChanged_def sampleImports_def shouldIncludeInDiff_spec_def)
  have o1: "oldSize snapshotChanged = Some 800"
    and o2: "oldTextSize snapshotChanged = Some 400"
    and d1: "sizeDifference snapshotChanged = currentSize snapshotChanged - 800"
    and d2: "textDifference snapshotChanged = currentTextSize snapshotChanged - 400"
    by (simp_all add: snapshotChanged_def)
  have np: "\<forall>x. \<not> prefix ''+'' (fileSize sampleImports x)"
    using fileSize_bytes_no_plus by (simp add: sampleImports_def)
  have f: "fileSize sampleImports (Some 800) = ''800 B''"
      "fileSize sampleImports (Some 900) = ''900 B''"
      "fileSize sampleImports (Some 400) = ''400 B''"
      "fileSize sampleImports (Some 300) = ''300 B''"
      "fileSize sampleImports (Some 100) = ''100 B''"
      "fileSize sampleImports (Some (- 100)) = ''-100 B''"
    by (simp_all add: sampleImports_def fileSize_bytes_def eval_number)
  have c: "currentSize snapshotChanged = 900" "currentTextSize snapshotChanged = 300"
    by (simp_all add: snapshotChanged_def)
  from inst[THEN conjunct2, THEN conjunct1] i1 o1 d1
  have rt: "totalSizeRows sampleImports snapshotChanged
        = [(''- Size'', ''800 B'', []), (''+ Size'', ''900 B'', ''+100 B'')]"
    by (simp add: c f)
  from inst[THEN conjunct2, THEN conjunct2] i2 o2 d2
  have rx: "textSizeRows sampleImports snapshotChanged
        = [(''- Text Size'', ''400 B'', []), (''+ Text Size'', ''300 B'', ''-100 B'')]"
    by (simp add: c f)
  have frag: "createSnapshotComment sampleImports snapshotChanged
     = nl @ ''```diff'' @ nl
       @ ''@@ Size breakdown @@'' @ nl
       @ nl
       @ table sampleImports
           [[''- Size'', ''800 B'', []], [''+ Size'', ''900 B'', ''+100 B''],
            [''- Text Size'', ''400 B'', []], [''+ Text Size'', ''300 B'', ''-100 B'']] @ nl
       @ nl
       @ ''```'' @ nl
       @ nl
       @ crateDetailsText sampleImports snapshotChanged @ nl
       @ nl
       @ treeDiffText snapshotChanged @ nl"
    using inst[THEN conjunct1] by (simp add: rt rx)
  from i1 i2 np rt rx frag show ?thesis by (intro conjI)
qed

text \<open>
  Claim C8 (marker selection). The table's keys are \<open>apple\<close>, \<open>windows\<close>, \<open>arm\<close>, \<open>linux\<close> in
  this order. The selected marker is that of the first entry whose key occurs in the
  toolchain label, and \<open>crab\<close> when no key occurs in it. For \<open>x86_64-apple-darwin\<close> it is
  the marker of \<open>apple\<close>.
\<close>

theorem selectedEmoji_first_match:
  "map fst emojiList = [''apple'', ''windows'', ''arm'', ''linux'']
   \<and> ((\<exists>i<length emojiList.
          sublist (fst (emojiList ! i)) toolchain
          \<and> (\<forall>j<i. \<not> sublist (fst (emojiList ! j)) toolchain)
          \<and> selectedEmoji toolchain = snd (emojiList ! i))
        \<or> ((\<forall>e\<in>set emojiList. \<not> sublist (fst e) toolchain)
            \<and> selectedEmoji toolchain = ''crab''))
   \<and> selectedEmoji ''x86_64-apple-darwin'' = ''apple''"
proof (intro conjI)
  show "map fst emojiList = [''apple'', ''windows'', ''arm'', ''linux'']"
    by (simp add: emojiList_def)
  show "(\<exists>i<length emojiList.
          sublist (fst (emojiList ! i)) toolchain
          \<and> (\<forall>j<i. \<not> sublist (fst (emojiList ! j)) toolchain)
          \<and> selectedEmoji toolchain = snd (emojiList ! i))
        \<or> ((\<forall>e\<in>set emojiList. \<not> sublist (fst e) toolchain)
            \<and> selectedEmoji toolchain = ''crab'')"
    unfolding selectedEmoji_def by (rule selectEmoji_loop_first)
  show "selectedEmoji ''x86_64-apple-darwin'' = ''apple''"
    by (simp add: selectedEmoji_def emojiList_def)
qed

text \<open>The theorem of claim C8 at a concrete input.\<close>

theorem selectedEmoji_first_match_witness:
  "sublist ''arm'' ''armv7-unknown-linux-gnueabihf''
   \<and> sublist ''linux'' ''armv7-unknown-linux-gnueabihf''
   \<and> selectedEmoji ''armv7-unknown-linux-gnueabihf'' = ''muscle''
   \<and> selectedEmoji ''wasm32-unknown-unknown'' = ''crab''"
proof -
  have a: "sublist ''arm'' ''armv7-unknown-linux-gnueabihf''"
    by (simp add: str_includes_iff_sublist[symmetric])
  have l: "sublist ''linux'' ''armv7-unknown-linux-gnueabihf''"
    by (simp add: str_includes_iff_sublist[symmetric])
  have m: "selectedEmoji ''armv7-unknown-linux-gnueabihf'' = ''muscle''"
    using selectedEmoji_first_match[of "''armv7-unknown-linux-gnueabihf''"] a
    by (simp add: selectedEmoji_def emojiList_def)
  have c: "selectedEmoji ''wasm32-unknown-unknown'' = ''crab''"
    by (simp add: selectedEmoji_def emojiList_def)
  from a l m c show ?thesis by simp
qed

text \<open>
  Claim C9 (dependency count summary). The fragment \<^verbatim>\<open>createSnapshotComment\<close> returns
  carries the count summary in its dependency tree section, on the line after the header
  \<open>@@ Dependency tree @@\<close>. When the old and the new count are equal, the summary is
  \<open>Count:\<close> and the count, on one line. When they differ, it is the removed line with the
  old count, a line feed, and the added line with the new count. The summary has the
  one-line form exactly when the counts are equal.
\<close>

theorem createSnapshotComment_count_summary:
  "createSnapshotComment ext diff
   = nl @ ''```diff'' @ nl
     @ ''@@ Size breakdown @@'' @ nl
     @ nl
     @ table ext (map (\<lambda>(a, b, c). [a, b, c]) (sizeTableRows ext diff)) @ nl
     @ nl
     @ ''```'' @ nl
     @ nl
     @ crateDetailsText ext diff @ nl
     @ nl
     @ nl @ ''<details>'' @ nl
     @ ''<summary>Dependency tree</summary>'' @ nl
     @ ''<br />'' @ nl
     @ nl
     @ ''```diff'' @ nl
     @ ''@@ Dependency tree @@'' @ nl
     @ dependencyCountDiff diff @ nl
     @ nl
     @ renderTreeDiff (treeDiff diff) @ nl
     @ ''```'' @ nl
     @ nl
     @ ''</details>'' @ nl
     @ nl
   \<and> (oldDependenciesCount diff = newDependenciesCount diff \<longrightarrow>
      dependencyCountDiff diff = ''Count: '' @ string_of_number (oldDependenciesCount diff)
      \<and> CHR 0x0A \<notin> set (dependencyCountDiff diff))
   \<and> (oldDependenciesCount diff \<noteq> newDependenciesCount diff \<longrightarrow>
      dependencyCountDiff diff =
        ''- Count: '' @ string_of_number (oldDependenciesCount diff) @ nl
        @ ''+ Count: '' @ string_of_number (newDependenciesCount diff))
   \<and> ((\<exists>n. dependencyCountDiff diff = ''Count: '' @ string_of_number n)
        \<longleftrightarrow> oldDependenciesCount diff = newDependenciesCount diff)"
proof -
  have "createSnapshotComment ext diff
   = nl @ ''```diff'' @ nl
     @ ''@@ Size breakdown @@'' @ nl
     @ nl
     @ table ext (map (\<lambda>(a, b, c). [a, b, c]) (sizeTableRows ext diff)) @ nl
     @ nl
     @ ''```'' @ nl
     @ nl
     @ crateDetailsText ext diff @ nl
     @ nl
     @ nl @ ''<details>'' @ nl
     @ ''<summary>Dependency tree</summary>'' @ nl
     @ ''<br />'' @ nl
     @ nl
     @ ''```diff'' @ nl
     @ ''@@ Dependency tree @@'' @ nl
     @ dependencyCountDiff diff @ nl
     @ nl
     @ renderTreeDiff (treeDiff diff) @ nl
     @ ''```'' @ nl
     @ nl
     @ ''</details>'' @ nl
     @ nl"
    by (simp add: createSnapshotComment_def treeDiffText_def)
  from this dependencyCountDiff_cases[of diff] show ?thesis by (rule conjI)
qed

text \<open>
  The theorem of claim C9 at concrete inputs: the first-run snapshot (counts 10 and 10) and
  the changed snapshot (counts 10 and 12).
\<close>

theorem createSnapshotComment_count_summary_witness:
  "oldDependenciesCount snapshotFirst = newDependenciesCount snapshotFirst
   \<and> oldDependenciesCount snapshotChanged \<noteq> newDependenciesCount snapshotChanged
   \<and> dependencyCountDiff snapshotFirst = ''Count: 10''
   \<and> dependencyCountDiff snapshotChanged = ''- Count: 10'' @ nl @ ''+ Count: 12''
   \<and> createSnapshotComment sampleImports snapshotChanged
     = nl @ ''```diff'' @ nl
       @ ''@@ Size breakdown @@'' @ nl
       @ nl
       @ table sampleImports (map (\<lambda>(a, b, c). [a, b, c])
           (sizeTableRows sampleImports snapshotChanged)) @ nl
       @ nl
       @ ''```'' @ nl
       @ nl
       @ crateDetailsText sampleImports snapshotChanged @ nl
       @ nl
       @ nl @ ''<details>'' @ nl
       @ ''<summary>Dependency tree</summary>'' @ nl
       @ ''<br />'' @ nl
       @ nl
       @ ''```diff'' @ nl
       @ ''@@ Dependency tree @@'' @ nl
       @ ''- Count: 10'' @ nl
       @ ''+ Count: 12'' @ nl
       @ nl
       @ renderTreeDiff (treeDiff snapshotChanged) @ nl
       @ ''```'' @ nl
       @ nl
       @ ''</details>'' @ nl
       @ nl"
proof -
  note first = createSnapshotComment_count_summary[of sampleImports snapshotFirst]
  note changed = createSnapshotComment_count_summary[of sampleImports snapshotChanged]
  have eq: "oldDependenciesCount snapshotFirst = newDependenciesCount snapshotFirst"
    and ne: "oldDependenciesCount snapshotChanged \<noteq> newDependenciesCount snapshotChanged"
    by (simp_all add: snapshotFirst_def snapshotChanged_def)
  have n: "string_of_number 10 = ''10''" "string_of_number 12 = ''12''"
    by (simp_all add: eval_number)
  have c: "oldDependenciesCount snapshotFirst = 10" "oldDependenciesCount snapshotChanged = 10"
      "newDependenciesCount snapshotChanged = 12"
    by (simp_all add: snapshotFirst_def snapshotChanged_def)
  from first[THEN conjunct2, THEN conjunct1] eq
  have s1: "dependencyCountDiff snapshotFirst = ''Count: 10''"
    by (simp add: c n)
  from changed[THEN conjunct2, THEN conjunct2, THEN conjunct1] ne
  have s2: "dependencyCountDiff snapshotChanged = ''- Count: 10'' @ nl @ ''+ Count: 12''"
    by (simp add: c n)
  note frag = changed[THEN conjunct1, unfolded s2]
  from eq ne s1 s2 frag show ?thesis by simp
qed

text \<open>
  Claim C10 (no snapshots). For the empty sequence of snapshots the inner comment is the
  empty string, and \<^verbatim>\<open>createComment\<close> returns the template around it: the marker line,
  the empty inner section, and the commit line.
\<close>

theorem createComment_no_snapshots:
  "innerComment ext [] = []
   \<and> createComment ext ctx masterCommit currentCommit toolchain []
     = nl @ ''  :'' @ selectedEmoji toolchain @ '': Cargo bloat for toolchain **'' @ toolchain
       @ ''** :'' @ selectedEmoji toolchain @ '':'' @ nl
       @ nl
       @ ''  '' @ nl
       @ nl
       @ ''  Commit: '' @ currentCommit @ '' '' @ compareCommitText ctx masterCommit currentCommit @ nl
       @ ''  ''"
  by (simp add: createComment_def innerComment_def)

text \<open>The theorem of claim C10 at a concrete input.\<close>

theorem createComment_no_snapshots_witness:
  "createComment sampleImports sampleContext None ''abc123'' ''x86_64-apple-darwin'' []
   = nl @ ''  :apple: Cargo bloat for toolchain **x86_64-apple-darwin** :apple:'' @ nl
     @ nl
     @ ''  '' @ nl
     @ nl
     @ ''  Commit: abc123 '' @ nl
     @ ''  ''"
  using createComment_no_snapshots[of sampleImports sampleContext None "''abc123''"
      "''x86_64-apple-darwin''"]
  by (simp add: compareCommitText_def selectedEmoji_def emojiList_def)


section \<open>Further properties of the renderer\<close>

text \<open>
  Property X1 (crate rows, sizes other than 0). For a crate entry: with both sizes absent no
  row is pushed; with equal present sizes, one unlabeled row with the name and the
  humanized size; with different sizes, neither of them 0, the removed row exactly when the
  old size is present, then the added row exactly when the new size is present. The rows
  of the table are the rows of the entries in input order.
\<close>

theorem crateRows_nonzero:
  "(old d = None \<and> new d = None \<longrightarrow> crateRows ext d = [])
   \<and> (old d = Some v \<and> new d = Some v \<longrightarrow> crateRows ext d = [(name d, fileSize ext (Some v))])
   \<and> (old d \<noteq> new d \<and> old d \<noteq> Some 0 \<and> new d \<noteq> Some 0 \<longrightarrow>
        crateRows ext d
        = (if old d \<noteq> None then [(''- '' @ name d, fileSize ext (old d))] else [])
          @ (if new d \<noteq> None then [(''+ '' @ name d, fileSize ext (new d))] else []))
   \<and> crateTableRows ext diff = concat (map (crateRows ext) (crateDifference diff))"
  by (auto simp: crateRows_def truthy_def crateTableRows_def forEach_push_concat
      split: option.splits)

text \<open>Property X1 on the crate entries of the specification's example.\<close>

theorem crateRows_nonzero_witness:
  "crateTableRows sampleImports snapshotFirst
   = [(''a'', ''1000 B''), (''- b'', ''500 B''), (''+ c'', ''800 B'')]"
proof -
  have a: "crateRows sampleImports \<lparr>name = ''a'', old = Some 1000, new = Some 1000\<rparr>
           = [(''a'', ''1000 B'')]"
    using crateRows_nonzero[of "\<lparr>name = ''a'', old = Some 1000, new = Some 1000\<rparr>" sampleImports
        1000 snapshotFirst]
    by (simp add: sampleImports_def fileSize_bytes_def eval_number)
  have b: "crateRows sampleImports \<lparr>name = ''b'', old = Some 500, new = None\<rparr>
           = [(''- b'', ''500 B'')]"
    using crateRows_nonzero[of "\<lparr>name = ''b'', old = Some 500, new = None\<rparr>" sampleImports
        0 snapshotFirst]
    by (simp add: sampleImports_def fileSize_bytes_def eval_number)
  have c: "crateRows sampleImports \<lparr>name = ''c'', old = None, new = Some 800\<rparr>
           = [(''+ c'', ''800 B'')]"
    using crateRows_nonzero[of "\<lparr>name = ''c'', old = None, new = Some 800\<rparr>" sampleImports
        0 snapshotFirst]
    by (simp add: sampleImports_def fileSize_bytes_def eval_number)
  have "crateTableRows sampleImports snapshotFirst
        = concat (map (crateRows sampleImports) (crateDifference snapshotFirst))"
    using crateRows_nonzero[of "\<lparr>name = ''a'', old = Some 1000, new = Some 1000\<rparr>" sampleImports
        1000 snapshotFirst]
    by blast
  with a b c show ?thesis by (simp add: snapshotFirst_def)
qed

text \<open>
  Property X2 (text-size row). When the comparison decision does not hold of the text
  pair, one row labelled \<open>Text size\<close> with the humanized current text size is pushed, and
  the size table has the rows of the total pair before the rows of the text pair.
\<close>

theorem textSizeRows_unchanged:
  "(\<not> shouldIncludeInDiff ext (currentTextSize diff) (oldTextSize diff) \<longrightarrow>
      textSizeRows ext diff = [(''Text size'', fileSize ext (Some (currentTextSize diff)), [])])
   \<and> sizeTableRows ext diff = totalSizeRows ext diff @ textSizeRows ext diff"
  by (simp add: textSizeRows_def sizeTableRows_def)

text \<open>Property X2 on the first-run snapshot.\<close>

theorem textSizeRows_unchanged_witness:
  "\<not> shouldIncludeInDiff sampleImports (currentTextSize snapshotFirst) (oldTextSize snapshotFirst)
   \<and> textSizeRows sampleImports snapshotFirst = [(''Text size'', ''300 B'', [])]"
proof -
  have n: "\<not> shouldIncludeInDiff sampleImports (currentTextSize snapshotFirst)
             (oldTextSize snapshotFirst)"
    by (simp add: snapshotFirst_def sampleImports_def shouldIncludeInDiff_spec_def)
  have f: "fileSize sampleImports (Some (currentTextSize snapshotFirst)) = ''300 B''"
    by (simp add: snapshotFirst_def sampleImports_def fileSize_bytes_def eval_number)
  from textSizeRows_unchanged[of sampleImports snapshotFirst] n f show ?thesis by simp
qed

text \<open>
  Property X3 (crate details). The crate details are the notice \<open>No changes to crate sizes\<close>
  exactly when no crate row was pushed; otherwise they are the collapsible section around
  the table of the crate rows.
\<close>

theorem crateDetailsText_notice:
  "(crateDetailsText ext diff = ''No changes to crate sizes'' \<longleftrightarrow> crateTableRows ext diff = [])
   \<and> (crateTableRows ext diff \<noteq> [] \<longrightarrow>
        crateDetailsText ext diff
        = nl @ ''<details>'' @ nl
          @ ''<summary>Size difference per crate</summary>'' @ nl
          @ ''<br />'' @ nl
          @ nl
          @ ''**Note:** The numbers below are not 100% accurate, use them as a rough estimate.'' @ nl
          @ nl
          @ ''```diff'' @ nl
          @ ''@@ Breakdown per crate @@'' @ nl
          @ nl
          @ table ext (map (\<lambda>(a, b). [a, b]) (crateTableRows ext diff)) @ nl
          @ ''```'' @ nl
          @ nl
          @ ''</details>'' @ nl)"
  by (simp add: crateDetailsText_def)

text \<open>
  Property X3 on a snapshot whose only crate entry has both sizes absent, and on the
  first-run snapshot with the three crate rows of the specification's example.
\<close>

theorem crateDetailsText_notice_witness:
  "crateDetailsText sampleImports
     (snapshotFirst\<lparr>crateDifference := [\<lparr>name = ''n'', old = None, new = None\<rparr>]\<rparr>)
   = ''No changes to crate sizes''
   \<and> crateTableRows sampleImports snapshotFirst \<noteq> []
   \<and> crateDetailsText sampleImports snapshotFirst
     = nl @ ''<details>'' @ nl
       @ ''<summary>Size difference per crate</summary>'' @ nl
       @ ''<br />'' @ nl
       @ nl
       @ ''**Note:** The numbers below are not 100% accurate, use them as a rough estimate.'' @ nl
       @ nl
       @ ''```diff'' @ nl
       @ ''@@ Breakdown per crate @@'' @ nl
       @ nl
       @ table sampleImports [[''a'', ''1000 B''], [''- b'', ''500 B''], [''+ c'', ''800 B'']] @ nl
       @ ''```'' @ nl
       @ nl
       @ ''</details>'' @ nl"
proof -
  have rows: "crateTableRows sampleImports snapshotFirst
              = [(''a'', ''1000 B''), (''- b'', ''500 B''), (''+ c'', ''800 B'')]"
    by (simp add: crateTableRows_def crateRows_def truthy_def snapshotFirst_def sampleImports_def
        fileSize_bytes_def eval_number)
  then have ne: "crateTableRows sampleImports snapshotFirst \<noteq> []" by simp
  have none: "crateDetailsText sampleImports
     (snapshotFirst\<lparr>crateDifference := [\<lparr>name = ''n'', old = None, new = None\<rparr>]\<rparr>)
   = ''No changes to crate sizes''"
    using crateDetailsText_notice[of sampleImports
      "snapshotFirst\<lparr>crateDifference := [\<lparr>name = ''n'', old = None, new = None\<rparr>]\<rparr>"]
    by (simp add: crateTableRows_def crateRows_def)
  from crateDetailsText_notice[of sampleImports snapshotFirst, THEN conjunct2] ne
  have some: "crateDetailsText sampleImports snapshotFirst
     = nl @ ''<details>'' @ nl
       @ ''<summary>Size difference per crate</summary>'' @ nl
       @ ''<br />'' @ nl
       @ nl
       @ ''**Note:** The numbers below are not 100% accurate, use them as a rough estimate.'' @ nl
       @ nl
       @ ''```diff'' @ nl
       @ ''@@ Breakdown per crate @@'' @ nl
       @ nl
       @ table sampleImports [[''a'', ''1000 B''], [''- b'', ''500 B''], [''+ c'', ''800 B'']] @ nl
       @ ''```'' @ nl
       @ nl
       @ ''</details>'' @ nl"
    by (simp add: rows)
  from none ne some show ?thesis by (intro conjI)
qed

end
